theory Spec2Isabelle
  imports Complex_Main "HOL-Library.Word"
begin

section \<open>The model wrapper: \<open>face_swap.py\<close>\<close>

subsection \<open>Values of the host language\<close>

text \<open>
  A value of \<open>py_exception\<close> stands for an instance of Python's class \<open>Exception\<close> or
  of one of its subclasses; the string is what \<open>str(e)\<close> gives. These are the values a
  handler \<open>except Exception as e\<close> binds.
\<close>

datatype py_exception = Exception string

fun str_exc :: "py_exception \<Rightarrow> string" where
  "str_exc (Exception m) = m"

text \<open>
  What a call can raise. \<open>Raise e\<close> is the instance \<open>e\<close> of \<open>Exception\<close>, which a handler
  \<open>except Exception\<close> catches. \<open>Raise_base name\<close> is an instance of the class \<open>name\<close>
  that derives from \<open>BaseException\<close> without deriving from \<open>Exception\<close>
  (\<open>KeyboardInterrupt\<close>, \<open>SystemExit\<close>, \<open>GeneratorExit\<close>): such a handler lets it pass.
\<close>

datatype py_raise = Raise py_exception | Raise_base string

text \<open>
  A raster image as \<open>cv2\<close> hands it out: rows of pixels of three 8-bit channels (BGR).
  Where a Python variable may also hold \<open>None\<close>, the model uses \<open>image option\<close>.
\<close>

type_synonym image = "8 word list list list"

text \<open>Records of the \<open>logging\<close> module: the level name and the message.\<close>

datatype levelname = INFO | WARNING | ERROR

type_synonym log_record = "levelname \<times> string"

subsection \<open>Message texts\<close>

text \<open>
  The messages of the source are Chinese text; a \<open>string\<close> here is a list of bytes, so
  each constant is the UTF-8 encoding of the source's literal.
\<close>

definition msg_models_loading :: string where
  \<comment> \<open>UTF-8 of the code points U+6A21 U+578B U+4ECD U+5728 U+52A0 U+8F7D U+4E2D U+002E U+002E U+002E\<close>
  "msg_models_loading =
   [CHR 0xE6, CHR 0xA8, CHR 0xA1, CHR 0xE5, CHR 0x9E, CHR 0x8B, CHR 0xE4, CHR 0xBB,
    CHR 0x8D, CHR 0xE5, CHR 0x9C, CHR 0xA8, CHR 0xE5, CHR 0x8A, CHR 0xA0, CHR 0xE8,
    CHR 0xBD, CHR 0xBD, CHR 0xE4, CHR 0xB8, CHR 0xAD, CHR 0x2E, CHR 0x2E, CHR 0x2E]"

definition msg_models_not_loaded :: string where
  \<comment> \<open>UTF-8 of the code points U+6A21 U+578B U+672A U+6B63 U+786E U+52A0 U+8F7D\<close>
  "msg_models_not_loaded =
   [CHR 0xE6, CHR 0xA8, CHR 0xA1, CHR 0xE5, CHR 0x9E, CHR 0x8B, CHR 0xE6, CHR 0x9C,
    CHR 0xAA, CHR 0xE6, CHR 0xAD, CHR 0xA3, CHR 0xE7, CHR 0xA1, CHR 0xAE, CHR 0xE5,
    CHR 0x8A, CHR 0xA0, CHR 0xE8, CHR 0xBD, CHR 0xBD]"

definition msg_no_src_face :: string where
  \<comment> \<open>UTF-8 of the code points U+6E90 U+56FE U+7247 U+4E2D U+672A U+68C0 U+6D4B U+5230 U+4EBA U+8138\<close>
  "msg_no_src_face =
   [CHR 0xE6, CHR 0xBA, CHR 0x90, CHR 0xE5, CHR 0x9B, CHR 0xBE, CHR 0xE7, CHR 0x89,
    CHR 0x87, CHR 0xE4, CHR 0xB8, CHR 0xAD, CHR 0xE6, CHR 0x9C, CHR 0xAA, CHR 0xE6,
    CHR 0xA3, CHR 0x80, CHR 0xE6, CHR 0xB5, CHR 0x8B, CHR 0xE5, CHR 0x88, CHR 0xB0,
    CHR 0xE4, CHR 0xBA, CHR 0xBA, CHR 0xE8, CHR 0x84, CHR 0xB8]"

definition msg_no_dst_face :: string where
  \<comment> \<open>UTF-8 of the code points U+76EE U+6807 U+56FE U+7247 U+4E2D U+672A U+68C0 U+6D4B U+5230 U+4EBA U+8138\<close>
  "msg_no_dst_face =
   [CHR 0xE7, CHR 0x9B, CHR 0xAE, CHR 0xE6, CHR 0xA0, CHR 0x87, CHR 0xE5, CHR 0x9B,
    CHR 0xBE, CHR 0xE7, CHR 0x89, CHR 0x87, CHR 0xE4, CHR 0xB8, CHR 0xAD, CHR 0xE6,
    CHR 0x9C, CHR 0xAA, CHR 0xE6, CHR 0xA3, CHR 0x80, CHR 0xE6, CHR 0xB5, CHR 0x8B,
    CHR 0xE5, CHR 0x88, CHR 0xB0, CHR 0xE4, CHR 0xBA, CHR 0xBA, CHR 0xE8, CHR 0x84,
    CHR 0xB8]"

definition msg_swap_error :: string where
  \<comment> \<open>UTF-8 of the code points U+6362 U+8138 U+8FC7 U+7A0B U+4E2D U+51FA U+9519 U+003A U+0020\<close>
  "msg_swap_error =
   [CHR 0xE6, CHR 0x8D, CHR 0xA2, CHR 0xE8, CHR 0x84, CHR 0xB8, CHR 0xE8, CHR 0xBF,
    CHR 0x87, CHR 0xE7, CHR 0xA8, CHR 0x8B, CHR 0xE4, CHR 0xB8, CHR 0xAD, CHR 0xE5,
    CHR 0x87, CHR 0xBA, CHR 0xE9, CHR 0x94, CHR 0x99, CHR 0x3A, CHR 0x20]"

definition msg_load_detector_start :: string where
  \<comment> \<open>UTF-8 of the code points U+5F00 U+59CB U+52A0 U+8F7D U+4EBA U+8138 U+68C0 U+6D4B U+6A21 U+578B U+002E U+002E U+002E\<close>
  "msg_load_detector_start =
   [CHR 0xE5, CHR 0xBC, CHR 0x80, CHR 0xE5, CHR 0xA7, CHR 0x8B, CHR 0xE5, CHR 0x8A,
    CHR 0xA0, CHR 0xE8, CHR 0xBD, CHR 0xBD, CHR 0xE4, CHR 0xBA, CHR 0xBA, CHR 0xE8,
    CHR 0x84, CHR 0xB8, CHR 0xE6, CHR 0xA3, CHR 0x80, CHR 0xE6, CHR 0xB5, CHR 0x8B,
    CHR 0xE6, CHR 0xA8, CHR 0xA1, CHR 0xE5, CHR 0x9E, CHR 0x8B, CHR 0x2E, CHR 0x2E,
    CHR 0x2E]"

definition msg_load_detector_done :: string where
  \<comment> \<open>UTF-8 of the code points U+4EBA U+8138 U+68C0 U+6D4B U+6A21 U+578B U+52A0 U+8F7D U+5B8C U+6210\<close>
  "msg_load_detector_done =
   [CHR 0xE4, CHR 0xBA, CHR 0xBA, CHR 0xE8, CHR 0x84, CHR 0xB8, CHR 0xE6, CHR 0xA3,
    CHR 0x80, CHR 0xE6, CHR 0xB5, CHR 0x8B, CHR 0xE6, CHR 0xA8, CHR 0xA1, CHR 0xE5,
    CHR 0x9E, CHR 0x8B, CHR 0xE5, CHR 0x8A, CHR 0xA0, CHR 0xE8, CHR 0xBD, CHR 0xBD,
    CHR 0xE5, CHR 0xAE, CHR 0x8C, CHR 0xE6, CHR 0x88, CHR 0x90]"

definition msg_model_file_missing :: string where
  \<comment> \<open>UTF-8 of the code points U+6A21 U+578B U+6587 U+4EF6 U+4E0D U+5B58 U+5728 U+003A U+0020\<close>
  "msg_model_file_missing =
   [CHR 0xE6, CHR 0xA8, CHR 0xA1, CHR 0xE5, CHR 0x9E, CHR 0x8B, CHR 0xE6, CHR 0x96,
    CHR 0x87, CHR 0xE4, CHR 0xBB, CHR 0xB6, CHR 0xE4, CHR 0xB8, CHR 0x8D, CHR 0xE5,
    CHR 0xAD, CHR 0x98, CHR 0xE5, CHR 0x9C, CHR 0xA8, CHR 0x3A, CHR 0x20]"

definition msg_load_swapper_start :: string where
  \<comment> \<open>UTF-8 of the code points U+5F00 U+59CB U+52A0 U+8F7D U+6362 U+8138 U+6A21 U+578B U+002E U+002E U+002E\<close>
  "msg_load_swapper_start =
   [CHR 0xE5, CHR 0xBC, CHR 0x80, CHR 0xE5, CHR 0xA7, CHR 0x8B, CHR 0xE5, CHR 0x8A,
    CHR 0xA0, CHR 0xE8, CHR 0xBD, CHR 0xBD, CHR 0xE6, CHR 0x8D, CHR 0xA2, CHR 0xE8,
    CHR 0x84, CHR 0xB8, CHR 0xE6, CHR 0xA8, CHR 0xA1, CHR 0xE5, CHR 0x9E, CHR 0x8B,
    CHR 0x2E, CHR 0x2E, CHR 0x2E]"

definition msg_load_swapper_done :: string where
  \<comment> \<open>UTF-8 of the code points U+6362 U+8138 U+6A21 U+578B U+52A0 U+8F7D U+5B8C U+6210\<close>
  "msg_load_swapper_done =
   [CHR 0xE6, CHR 0x8D, CHR 0xA2, CHR 0xE8, CHR 0x84, CHR 0xB8, CHR 0xE6, CHR 0xA8,
    CHR 0xA1, CHR 0xE5, CHR 0x9E, CHR 0x8B, CHR 0xE5, CHR 0x8A, CHR 0xA0, CHR 0xE8,
    CHR 0xBD, CHR 0xBD, CHR 0xE5, CHR 0xAE, CHR 0x8C, CHR 0xE6, CHR 0x88, CHR 0x90]"

definition msg_load_failed :: string where
  \<comment> \<open>UTF-8 of the code points U+6A21 U+578B U+52A0 U+8F7D U+5931 U+8D25 U+003A U+0020\<close>
  "msg_load_failed =
   [CHR 0xE6, CHR 0xA8, CHR 0xA1, CHR 0xE5, CHR 0x9E, CHR 0x8B, CHR 0xE5, CHR 0x8A,
    CHR 0xA0, CHR 0xE8, CHR 0xBD, CHR 0xBD, CHR 0xE5, CHR 0xA4, CHR 0xB1, CHR 0xE8,
    CHR 0xB4, CHR 0xA5, CHR 0x3A, CHR 0x20]"

subsection \<open>The two external models\<close>

text \<open>
  Both models are opaque to the repository. \<open>FaceAnalysis.get(img)\<close> returns the list of
  detected faces or raises; \<open>INSwapper.get(img, target_face, source_face, paste_back=True)\<close>
  returns the composited image or raises. The types of images and faces are parameters:
  the wrapper never looks inside either.
\<close>

type_synonym ('img, 'face) FaceAnalysis = "'img \<Rightarrow> py_raise + 'face list"

type_synonym ('img, 'face) INSwapper = "'img \<Rightarrow> 'face \<Rightarrow> 'face \<Rightarrow> py_raise + 'img"

subsection \<open>Class \<open>FaceSwapper\<close>\<close>

text \<open>
  The attributes \<open>app\<close>, \<open>swapper\<close> and \<open>thread\<close>; of the thread only
  \<open>is_alive()\<close> is ever read, so the thread is the flag \<open>thread_is_alive\<close>.
\<close>

record ('img, 'face) FaceSwapper =
  app :: "('img, 'face) FaceAnalysis option"
  swapper :: "('img, 'face) INSwapper option"
  thread_is_alive :: bool

text \<open>\<open>FaceSwapper.__init__\<close>: no model yet, the loader thread started.\<close>

definition FaceSwapper_init :: "('img, 'face) FaceSwapper" where
  "FaceSwapper_init = \<lparr>app = None, swapper = None, thread_is_alive = True\<rparr>"

text \<open>
  \<open>FaceSwapper._load_models\<close>, run to its end by the loader thread. The arguments are the
  outcomes of the calls it makes: \<open>analysis\<close> for constructing and preparing the detector,
  \<open>model_exists\<close> for \<open>os.path.exists(model_path)\<close>, \<open>model\<close> for
  \<open>model_zoo.get_model(model_path)\<close>. The result is the object once the thread has ended,
  with the records logged on the way.
\<close>

definition load_models ::
  "py_exception + ('img, 'face) FaceAnalysis \<Rightarrow> string \<Rightarrow> bool \<Rightarrow>
   py_exception + ('img, 'face) INSwapper \<Rightarrow>
   ('img, 'face) FaceSwapper \<Rightarrow> ('img, 'face) FaceSwapper \<times> log_record list" where
  "load_models analysis model_path model_exists model self =
     (case analysis of
        Inl e \<Rightarrow>
          (self\<lparr>app := None, swapper := None, thread_is_alive := False\<rparr>,
           [(INFO, msg_load_detector_start), (ERROR, msg_load_failed @ str_exc e)])
      | Inr a \<Rightarrow>
          if \<not> model_exists then
            (self\<lparr>app := Some a, thread_is_alive := False\<rparr>,
             [(INFO, msg_load_detector_start), (INFO, msg_load_detector_done),
              (ERROR, msg_model_file_missing @ model_path)])
          else
            (case model of
               Inl e \<Rightarrow>
                 (self\<lparr>app := None, swapper := None, thread_is_alive := False\<rparr>,
                  [(INFO, msg_load_detector_start), (INFO, msg_load_detector_done),
                   (INFO, msg_load_swapper_start), (ERROR, msg_load_failed @ str_exc e)])
             | Inr s \<Rightarrow>
                 (self\<lparr>app := Some a, swapper := Some s, thread_is_alive := False\<rparr>,
                  [(INFO, msg_load_detector_start), (INFO, msg_load_detector_done),
                   (INFO, msg_load_swapper_start), (INFO, msg_load_swapper_done)])))"

text \<open>
  The body of the \<open>try\<close> block of \<open>swap_face\<close>, with both models at hand. \<open>Inl e\<close> is
  the exception \<open>e\<close> raised by a model call and leaving the block; \<open>Inr\<close> is a
  \<open>return\<close> inside the block, with the records logged before it. Both detections run
  before either length is tested, as in the source.
\<close>

definition swap_face_try ::
  "('img, 'face) FaceAnalysis \<Rightarrow> ('img, 'face) INSwapper \<Rightarrow> 'img \<Rightarrow> 'img \<Rightarrow>
   py_raise + 'img \<times> log_record list" where
  "swap_face_try detect swap src_img dst_img =
     (case detect src_img of
        Inl e \<Rightarrow> Inl e
      | Inr src_faces \<Rightarrow>
          (case detect dst_img of
             Inl e \<Rightarrow> Inl e
           | Inr dst_faces \<Rightarrow>
               if length src_faces = 0 then Inr (dst_img, [(WARNING, msg_no_src_face)])
               else if length dst_faces = 0 then Inr (dst_img, [(WARNING, msg_no_dst_face)])
               else
                 (case swap dst_img (dst_faces ! 0) (src_faces ! 0) of
                    Inl e \<Rightarrow> Inl e
                  | Inr result \<Rightarrow> Inr (result, []))))"

text \<open>
  \<open>FaceSwapper.swap_face(src_img, dst_img)\<close>. \<open>Inr (img, logs)\<close> is the call returning
  \<open>img\<close> after logging \<open>logs\<close>; \<open>Inl r\<close> is the raise \<open>r\<close> reaching the caller. The two
  tests before the \<open>try\<close> read attributes only. The handler \<open>except Exception as e\<close>
  logs and returns the target image; a raise that is no \<open>Exception\<close> is not caught by it.
\<close>

definition swap_face ::
  "('img, 'face) FaceSwapper \<Rightarrow> 'img \<Rightarrow> 'img \<Rightarrow> py_raise + 'img \<times> log_record list" where
  "swap_face self src_img dst_img =
     (if thread_is_alive self then Inr (dst_img, [(INFO, msg_models_loading)])
      else
        (case (swapper self, app self) of
           (Some swap, Some detect) \<Rightarrow>
             (case swap_face_try detect swap src_img dst_img of
                Inl (Raise e) \<Rightarrow> Inr (dst_img, [(ERROR, msg_swap_error @ str_exc e)])
              | Inl (Raise_base name) \<Rightarrow> Inl (Raise_base name)
              | Inr r \<Rightarrow> Inr r)
         | _ \<Rightarrow> Inr (dst_img, [(ERROR, msg_models_not_loaded)])))"

section \<open>The GUI shell: \<open>gui.py\<close>\<close>

subsection \<open>Texts shown by the interface\<close>

definition txt_start :: string where
  \<comment> \<open>UTF-8 of the code points U+5F00 U+59CB\<close>
  "txt_start =
   [CHR 0xE5, CHR 0xBC, CHR 0x80, CHR 0xE5, CHR 0xA7, CHR 0x8B]"

definition txt_stop :: string where
  \<comment> \<open>UTF-8 of the code points U+505C U+6B62\<close>
  "txt_stop =
   [CHR 0xE5, CHR 0x81, CHR 0x9C, CHR 0xE6, CHR 0xAD, CHR 0xA2]"

definition txt_camera_started :: string where
  \<comment> \<open>UTF-8 of the code points U+6444 U+50CF U+5934 U+5DF2 U+542F U+52A8\<close>
  "txt_camera_started =
   [CHR 0xE6, CHR 0x91, CHR 0x84, CHR 0xE5, CHR 0x83, CHR 0x8F, CHR 0xE5, CHR 0xA4,
    CHR 0xB4, CHR 0xE5, CHR 0xB7, CHR 0xB2, CHR 0xE5, CHR 0x90, CHR 0xAF, CHR 0xE5,
    CHR 0x8A, CHR 0xA8]"

definition txt_camera_stopped :: string where
  \<comment> \<open>UTF-8 of the code points U+6444 U+50CF U+5934 U+5DF2 U+505C U+6B62\<close>
  "txt_camera_stopped =
   [CHR 0xE6, CHR 0x91, CHR 0x84, CHR 0xE5, CHR 0x83, CHR 0x8F, CHR 0xE5, CHR 0xA4,
    CHR 0xB4, CHR 0xE5, CHR 0xB7, CHR 0xB2, CHR 0xE5, CHR 0x81, CHR 0x9C, CHR 0xE6,
    CHR 0xAD, CHR 0xA2]"

definition txt_cannot_open_camera :: string where
  \<comment> \<open>UTF-8 of the code points U+65E0 U+6CD5 U+6253 U+5F00 U+6444 U+50CF U+5934\<close>
  "txt_cannot_open_camera =
   [CHR 0xE6, CHR 0x97, CHR 0xA0, CHR 0xE6, CHR 0xB3, CHR 0x95, CHR 0xE6, CHR 0x89,
    CHR 0x93, CHR 0xE5, CHR 0xBC, CHR 0x80, CHR 0xE6, CHR 0x91, CHR 0x84, CHR 0xE5,
    CHR 0x83, CHR 0x8F, CHR 0xE5, CHR 0xA4, CHR 0xB4]"

definition txt_error :: string where
  \<comment> \<open>UTF-8 of the code points U+9519 U+8BEF\<close>
  "txt_error =
   [CHR 0xE9, CHR 0x94, CHR 0x99, CHR 0xE8, CHR 0xAF, CHR 0xAF]"

definition txt_warning :: string where
  \<comment> \<open>UTF-8 of the code points U+8B66 U+544A\<close>
  "txt_warning =
   [CHR 0xE8, CHR 0xAD, CHR 0xA6, CHR 0xE5, CHR 0x91, CHR 0x8A]"

definition txt_camera_init_failed :: string where
  \<comment> \<open>UTF-8 of the code points U+6444 U+50CF U+5934 U+521D U+59CB U+5316 U+5931 U+8D25 U+003A U+0020\<close>
  "txt_camera_init_failed =
   [CHR 0xE6, CHR 0x91, CHR 0x84, CHR 0xE5, CHR 0x83, CHR 0x8F, CHR 0xE5, CHR 0xA4,
    CHR 0xB4, CHR 0xE5, CHR 0x88, CHR 0x9D, CHR 0xE5, CHR 0xA7, CHR 0x8B, CHR 0xE5,
    CHR 0x8C, CHR 0x96, CHR 0xE5, CHR 0xA4, CHR 0xB1, CHR 0xE8, CHR 0xB4, CHR 0xA5,
    CHR 0x3A, CHR 0x20]"

definition txt_image_load_failed :: string where
  \<comment> \<open>UTF-8 of the code points U+52A0 U+8F7D U+56FE U+7247 U+5931 U+8D25 U+003A U+0020\<close>
  "txt_image_load_failed =
   [CHR 0xE5, CHR 0x8A, CHR 0xA0, CHR 0xE8, CHR 0xBD, CHR 0xBD, CHR 0xE5, CHR 0x9B,
    CHR 0xBE, CHR 0xE7, CHR 0x89, CHR 0x87, CHR 0xE5, CHR 0xA4, CHR 0xB1, CHR 0xE8,
    CHR 0xB4, CHR 0xA5, CHR 0x3A, CHR 0x20]"

definition txt_waiting_face :: string where
  \<comment> \<open>UTF-8 of the code points U+7B49 U+5F85 U+68C0 U+6D4B U+4EBA U+8138 U+002E U+002E U+002E\<close>
  "txt_waiting_face =
   [CHR 0xE7, CHR 0xAD, CHR 0x89, CHR 0xE5, CHR 0xBE, CHR 0x85, CHR 0xE6, CHR 0xA3,
    CHR 0x80, CHR 0xE6, CHR 0xB5, CHR 0x8B, CHR 0xE4, CHR 0xBA, CHR 0xBA, CHR 0xE8,
    CHR 0x84, CHR 0xB8, CHR 0x2E, CHR 0x2E, CHR 0x2E]"

definition txt_face_found :: string where
  \<comment> \<open>UTF-8 of the code points U+68C0 U+6D4B U+5230 U+4EBA U+8138\<close>
  "txt_face_found =
   [CHR 0xE6, CHR 0xA3, CHR 0x80, CHR 0xE6, CHR 0xB5, CHR 0x8B, CHR 0xE5, CHR 0x88,
    CHR 0xB0, CHR 0xE4, CHR 0xBA, CHR 0xBA, CHR 0xE8, CHR 0x84, CHR 0xB8]"

definition txt_face_not_found :: string where
  \<comment> \<open>UTF-8 of the code points U+672A U+68C0 U+6D4B U+5230 U+4EBA U+8138\<close>
  "txt_face_not_found =
   [CHR 0xE6, CHR 0x9C, CHR 0xAA, CHR 0xE6, CHR 0xA3, CHR 0x80, CHR 0xE6, CHR 0xB5,
    CHR 0x8B, CHR 0xE5, CHR 0x88, CHR 0xB0, CHR 0xE4, CHR 0xBA, CHR 0xBA, CHR 0xE8,
    CHR 0x84, CHR 0xB8]"

definition txt_choose_source :: string where
  \<comment> \<open>UTF-8 of the code points U+8BF7 U+9009 U+62E9 U+6E90 U+56FE U+7247\<close>
  "txt_choose_source =
   [CHR 0xE8, CHR 0xAF, CHR 0xB7, CHR 0xE9, CHR 0x80, CHR 0x89, CHR 0xE6, CHR 0x8B,
    CHR 0xA9, CHR 0xE6, CHR 0xBA, CHR 0x90, CHR 0xE5, CHR 0x9B, CHR 0xBE, CHR 0xE7,
    CHR 0x89, CHR 0x87]"

definition txt_detection_disabled :: string where
  \<comment> \<open>UTF-8 of the code points U+4EBA U+8138 U+68C0 U+6D4B U+5DF2 U+7981 U+7528\<close>
  "txt_detection_disabled =
   [CHR 0xE4, CHR 0xBA, CHR 0xBA, CHR 0xE8, CHR 0x84, CHR 0xB8, CHR 0xE6, CHR 0xA3,
    CHR 0x80, CHR 0xE6, CHR 0xB5, CHR 0x8B, CHR 0xE5, CHR 0xB7, CHR 0xB2, CHR 0xE7,
    CHR 0xA6, CHR 0x81, CHR 0xE7, CHR 0x94, CHR 0xA8]"

definition txt_startup_failed :: string where
  \<comment> \<open>UTF-8 of the code points U+542F U+52A8 U+5931 U+8D25 U+003A U+0020\<close>
  "txt_startup_failed =
   [CHR 0xE5, CHR 0x90, CHR 0xAF, CHR 0xE5, CHR 0x8A, CHR 0xA8, CHR 0xE5, CHR 0xA4,
    CHR 0xB1, CHR 0xE8, CHR 0xB4, CHR 0xA5, CHR 0x3A, CHR 0x20]"

definition txt_ready :: string where
  \<comment> \<open>UTF-8 of the code points U+5C31 U+7EEA\<close>
  "txt_ready =
   [CHR 0xE5, CHR 0xB0, CHR 0xB1, CHR 0xE7, CHR 0xBB, CHR 0xAA]"

definition txt_waiting_source :: string where
  \<comment> \<open>UTF-8 of the code points U+7B49 U+5F85 U+9009 U+62E9 U+6E90 U+56FE U+7247 U+002E U+002E U+002E\<close>
  "txt_waiting_source =
   [CHR 0xE7, CHR 0xAD, CHR 0x89, CHR 0xE5, CHR 0xBE, CHR 0x85, CHR 0xE9, CHR 0x80,
    CHR 0x89, CHR 0xE6, CHR 0x8B, CHR 0xA9, CHR 0xE6, CHR 0xBA, CHR 0x90, CHR 0xE5,
    CHR 0x9B, CHR 0xBE, CHR 0xE7, CHR 0x89, CHR 0x87, CHR 0x2E, CHR 0x2E, CHR 0x2E]"

definition style_grey :: string where
  "style_grey = ''color: #888888;''"

definition style_green :: string where
  "style_green = ''color: #4CAF50;''"

definition style_red :: string where
  "style_red = ''color: #f44336;''"

subsection \<open>Small pieces of Python\<close>

text \<open>\<open>str(n)\<close> for an integer, as the f-string of the FPS label formats it.\<close>

fun str_nat :: "nat \<Rightarrow> string" where
  "str_nat n =
     (if n < 10 then [char_of (48 + n)]
      else str_nat (n div 10) @ [char_of (48 + n mod 10)])"

declare str_nat.simps [simp del]

definition str_int :: "int \<Rightarrow> string" where
  "str_int i = (if i < 0 then ''-'' @ str_nat (nat (- i)) else str_nat (nat i))"

text \<open>\<open>s.split(c)\<close> for a one-character separator: always at least one part.\<close>

fun split_on :: "char \<Rightarrow> string \<Rightarrow> string list" where
  "split_on c [] = [[]]"
| "split_on c (x # xs) =
     (if x = c then [] # split_on c xs
      else (case split_on c xs of
              [] \<Rightarrow> [[x]]
            | w # ws \<Rightarrow> (x # w) # ws))"

text \<open>\<open>xs[i]\<close> for a non-negative literal index: IndexError out of range.\<close>

definition py_index :: "'a list \<Rightarrow> nat \<Rightarrow> py_exception + 'a" where
  "py_index xs i =
     (if i < length xs then Inr (xs ! i) else Inl (Exception ''list index out of range''))"

text \<open>
  \<open>int(s)\<close> on a string of decimal digits, ValueError otherwise. The resolution box is not
  editable and holds three fixed texts of digits around an \<open>x\<close>, so signs, blanks and
  underscores, which Python's \<open>int\<close> also accepts, never reach this call.
\<close>

definition is_digit :: "char \<Rightarrow> bool" where
  "is_digit c = (48 \<le> (of_char c :: nat) \<and> (of_char c :: nat) \<le> 57)"

definition py_int :: "string \<Rightarrow> py_exception + int" where
  "py_int s =
     (if s \<noteq> [] \<and> list_all is_digit s
      then Inr (int (foldl (\<lambda>a c. 10 * a + (of_char c - 48)) (0::nat) s))
      else Inl (Exception (''invalid literal for int() with base 10: '' @ [CHR 0x27] @ s @ [CHR 0x27])))"

text \<open>\<open>os.path.basename\<close> on a path with \<open>/\<close> separators, as the file dialog returns them.\<close>

definition basename :: "string \<Rightarrow> string" where
  "basename p = rev (takeWhile (\<lambda>c. c \<noteq> CHR ''/'') (rev p))"

subsection \<open>Toolkit and camera objects\<close>

text \<open>
  A pixmap is kept as the expression that built it: resampling is the toolkit's business.
  \<open>Scaled w h p\<close> is \<open>p.scaled(w, h, Qt.KeepAspectRatio)\<close>.
\<close>

datatype QPixmap = Null_pixmap | From_image image | Scaled nat nat QPixmap

text \<open>\<open>FaceSwapUI.cv2_to_pixmap\<close>: an empty pixmap for \<open>None\<close>.\<close>

fun cv2_to_pixmap :: "image option \<Rightarrow> QPixmap" where
  "cv2_to_pixmap None = Null_pixmap"
| "cv2_to_pixmap (Some frame) = From_image frame"

text \<open>
  \<open>cv2.VideoCapture\<close>: whether the device is open, and the two properties the program
  sets. \<open>release()\<close> closes it.
\<close>

record VideoCapture =
  opened :: bool
  frame_width :: int
  frame_height :: int

definition release :: "VideoCapture \<Rightarrow> VideoCapture" where
  "release c = c\<lparr>opened := False\<rparr>"

text \<open>\<open>QTimer\<close>: running or not, and its interval in milliseconds.\<close>

record QTimer =
  active :: bool
  interval :: int

text \<open>\<open>QComboBox\<close>: the item texts and the current index (\<open>-1\<close> when empty).\<close>

record QComboBox =
  items :: "string list"
  currentIndex :: int

definition count :: "QComboBox \<Rightarrow> int" where
  "count box = int (length (items box))"

definition currentText :: "QComboBox \<Rightarrow> string" where
  "currentText box =
     (if 0 \<le> currentIndex box \<and> currentIndex box < count box
      then items box ! nat (currentIndex box) else [])"

text \<open>A modal \<open>QMessageBox\<close>: its kind, title and text.\<close>

datatype icon = Critical | Warning

type_synonym dialog = "icon \<times> string \<times> string"

text \<open>The one callback ever given to \<open>QTimer.singleShot\<close>.\<close>

datatype callback = Init_camera

subsection \<open>Class \<open>FaceSwapUI\<close>\<close>

text \<open>
  The attributes set in \<open>__init__\<close> and the state of the widgets that the methods read or
  write. \<open>face_swapper\<close> is the attribute \<open>self.swapper\<close>; \<open>lock\<close> is true while the lock
  is held. Three fields record effects that leave no attribute behind: \<open>dialogs\<close> lists
  the modal dialogs shown, \<open>single_shots\<close> the pending \<open>QTimer.singleShot\<close> requests, and
  \<open>swap_calls\<close> has one entry for every call of \<open>swap_face\<close> made by \<open>update_frame\<close>, the
  value of \<open>lock\<close> at the moment of the call.
\<close>

record 'face FaceSwapUI =
  face_swapper :: "(image option, 'face) FaceSwapper"
  src_img :: "image option"
  src_images :: "string \<rightharpoonup> image"
  current_src_index :: int
  lock :: bool
  cap :: "VideoCapture option"
  timer :: "QTimer option"
  fps :: int
  frame_count :: int
  last_time :: real
  is_running :: bool
  source_combo :: QComboBox
  resolution_combo :: QComboBox
  start_button :: string
  face_detection_check :: bool
  fps_label :: string
  src_label :: "QPixmap option"
  src_status :: "string \<times> string"
  cam_label :: "QPixmap option"
  cam_status :: "string \<times> string"
  progress_bar :: "bool \<times> int"
  loading_label :: bool
  status_bar :: "string \<times> int option"
  dialogs :: "dialog list"
  single_shots :: "(int \<times> callback) list"
  swap_calls :: "bool list"

text \<open>
  \<open>FaceSwapUI.__init__\<close> followed by \<open>init_ui\<close>, at time \<open>now\<close>. Labels are text and style
  sheet, the progress bar is visibility and value, the status bar is message and timeout.
\<close>

definition FaceSwapUI_init :: "real \<Rightarrow> 'face FaceSwapUI" where
  "FaceSwapUI_init now =
     \<lparr>face_swapper = FaceSwapper_init,
      src_img = None,
      src_images = Map.empty,
      current_src_index = 0,
      lock = False,
      cap = None,
      timer = None,
      fps = 0,
      frame_count = 0,
      last_time = now,
      is_running = True,
      source_combo = \<lparr>items = [], currentIndex = - 1\<rparr>,
      resolution_combo = \<lparr>items = [''640x480'', ''1280x720'', ''1920x1080''], currentIndex = 0\<rparr>,
      start_button = txt_start,
      face_detection_check = True,
      fps_label = ''FPS: 0'',
      src_label = None,
      src_status = (txt_waiting_source, style_grey),
      cam_label = None,
      cam_status = (txt_waiting_face, style_grey),
      progress_bar = (False, 0),
      loading_label = True,
      status_bar = (txt_ready, None),
      dialogs = [],
      single_shots = [(1000, Init_camera)],
      swap_calls = []\<rparr>"

subsection \<open>Dialogs and the log handler\<close>

definition message_box :: "icon \<Rightarrow> string \<Rightarrow> string \<Rightarrow> 'face FaceSwapUI \<Rightarrow> 'face FaceSwapUI" where
  "message_box kind title body self = self\<lparr>dialogs := dialogs self @ [(kind, title, body)]\<rparr>"

fun level_text :: "levelname \<Rightarrow> string" where
  "level_text INFO = ''INFO''"
| "level_text WARNING = ''WARNING''"
| "level_text ERROR = ''ERROR''"

text \<open>
  \<open>LogHandler.emit_log\<close> formats a record as \<open>levelname: message\<close> and passes it on to
  \<open>FaceSwapUI.handle_log\<close>: status bar for INFO, status bar for five seconds for WARNING,
  a warning dialog for ERROR.
\<close>

definition handle_log :: "'face FaceSwapUI \<Rightarrow> log_record \<Rightarrow> 'face FaceSwapUI" where
  "handle_log self r =
     (let message = level_text (fst r) @ '': '' @ snd r in
      case fst r of
        INFO \<Rightarrow> self\<lparr>status_bar := (message, None)\<rparr>
      | WARNING \<Rightarrow> self\<lparr>status_bar := (message, Some 5000)\<rparr>
      | ERROR \<Rightarrow> message_box Warning txt_warning message self)"

subsection \<open>The source images\<close>

text \<open>
  \<open>FaceSwapUI.change_source_image(index)\<close>. The name looked up is the box's current text;
  a name missing from the dictionary is Python's KeyError.
\<close>

definition change_source_image :: "int \<Rightarrow> 'face FaceSwapUI \<Rightarrow> py_exception + 'face FaceSwapUI" where
  "change_source_image index self =
     (if index \<ge> 0 \<and> index < count (source_combo self) then
        (let name = currentText (source_combo self) in
         case src_images self name of
           None \<Rightarrow> Inl (Exception ([CHR 0x27] @ name @ [CHR 0x27]))
         | Some img \<Rightarrow>
             Inr (self\<lparr>src_img := Some img,
                       src_label := Some (Scaled 600 450 (cv2_to_pixmap (Some img))),
                       src_status := (txt_waiting_face, style_grey)\<rparr>))
      else Inr self)"

text \<open>
  \<open>source_combo.addItem(name)\<close>. The toolkit appends the text; an item inserted into an
  empty box becomes the current one, and the box then emits \<open>currentIndexChanged(0)\<close>, to
  which \<open>change_source_image\<close> is connected.
\<close>

definition insert_item :: "string \<Rightarrow> 'face FaceSwapUI \<Rightarrow> 'face FaceSwapUI" where
  "insert_item name self =
     self\<lparr>source_combo :=
       \<lparr>items = items (source_combo self) @ [name],
        currentIndex = (if items (source_combo self) = [] then 0
                        else currentIndex (source_combo self))\<rparr>\<rparr>"

definition addItem :: "string \<Rightarrow> 'face FaceSwapUI \<Rightarrow> py_exception + 'face FaceSwapUI" where
  "addItem name self =
     (if items (source_combo self) = [] then change_source_image 0 (insert_item name self)
      else Inr (insert_item name self))"

text \<open>
  The user picking entry \<open>i\<close> of the box: the toolkit moves the current index and emits
  \<open>currentIndexChanged(i)\<close> when the index changes.
\<close>

definition select_item :: "int \<Rightarrow> 'face FaceSwapUI \<Rightarrow> py_exception + 'face FaceSwapUI" where
  "select_item i self =
     (if 0 \<le> i \<and> i < count (source_combo self) \<and> i \<noteq> currentIndex (source_combo self)
      then change_source_image i (self\<lparr>source_combo := (source_combo self)\<lparr>currentIndex := i\<rparr>\<rparr>)
      else Inr self)"

text \<open>
  One round of the loop of \<open>add_source_image\<close>. \<open>imread\<close> is \<open>cv2.imread\<close>: the image,
  \<open>None\<close> for a file it cannot decode, or an exception. Any exception inside the \<open>try\<close>
  ends the round with a warning dialog; what was assigned before it stays assigned.
\<close>

definition add_source_file ::
  "(string \<Rightarrow> py_exception + image option) \<Rightarrow> 'face FaceSwapUI \<Rightarrow> string \<Rightarrow> 'face FaceSwapUI" where
  "add_source_file imread self file =
     (case imread file of
        Inl e \<Rightarrow> message_box Warning txt_warning (txt_image_load_failed @ str_exc e) self
      | Inr None \<Rightarrow> self
      | Inr (Some img) \<Rightarrow>
          (let name = basename file;
               s1 = self\<lparr>src_images := (src_images self)(name \<mapsto> img)\<rparr>
           in case addItem name s1 of
                Inl e \<Rightarrow>
                  message_box Warning txt_warning (txt_image_load_failed @ str_exc e)
                    (insert_item name s1)
              | Inr s2 \<Rightarrow>
                  if card (dom (src_images s2)) = 1 then
                    (case change_source_image 0 s2 of
                       Inl e \<Rightarrow>
                         message_box Warning txt_warning (txt_image_load_failed @ str_exc e) s2
                     | Inr s3 \<Rightarrow> s3)
                  else s2))"

text \<open>
  \<open>FaceSwapUI.add_source_image\<close>: \<open>accepted\<close> is the result of \<open>file_dialog.exec_()\<close>,
  \<open>files\<close> the selected files.
\<close>

definition add_source_image ::
  "bool \<Rightarrow> string list \<Rightarrow> (string \<Rightarrow> py_exception + image option) \<Rightarrow>
   'face FaceSwapUI \<Rightarrow> 'face FaceSwapUI" where
  "add_source_image accepted files imread self =
     (if accepted then foldl (add_source_file imread) self files else self)"

subsection \<open>The camera\<close>

text \<open>
  \<open>FaceSwapUI.start_camera\<close>. \<open>device\<close> is the outcome of \<open>cv2.VideoCapture(0)\<close>: the
  capture object, open or not, or an exception. Every exception of the body ends in the
  handler's dialog, with the assignments made before it kept.
\<close>

definition camera_init_failed :: "py_exception \<Rightarrow> 'face FaceSwapUI \<Rightarrow> 'face FaceSwapUI" where
  "camera_init_failed e self =
     message_box Critical txt_error (txt_camera_init_failed @ str_exc e) self"

definition start_camera :: "py_exception + VideoCapture \<Rightarrow> 'face FaceSwapUI \<Rightarrow> 'face FaceSwapUI" where
  "start_camera device self =
     (case device of
        Inl e \<Rightarrow> camera_init_failed e self
      | Inr c \<Rightarrow>
          (let s1 = self\<lparr>cap := Some c\<rparr> in
           if \<not> opened c then message_box Critical txt_error txt_cannot_open_camera s1
           else
             (let resolution = split_on CHR ''x'' (currentText (resolution_combo s1)) in
              (case (case py_index resolution 0 of Inl e \<Rightarrow> Inl e | Inr w \<Rightarrow> py_int w) of
                 Inl e \<Rightarrow> camera_init_failed e s1
               | Inr w \<Rightarrow>
                   (let s2 = s1\<lparr>cap := Some (c\<lparr>frame_width := w\<rparr>)\<rparr> in
                    case (case py_index resolution 1 of Inl e \<Rightarrow> Inl e | Inr h \<Rightarrow> py_int h) of
                      Inl e \<Rightarrow> camera_init_failed e s2
                    | Inr h \<Rightarrow>
                        s2\<lparr>cap := Some (c\<lparr>frame_width := w, frame_height := h\<rparr>),
                           timer := Some \<lparr>active = True, interval = 30\<rparr>,
                           is_running := True,
                           status_bar := (txt_camera_started, None)\<rparr>)))))"

text \<open>\<open>FaceSwapUI.stop_camera\<close>.\<close>

definition stop_camera :: "'face FaceSwapUI \<Rightarrow> 'face FaceSwapUI" where
  "stop_camera self =
     (let s1 = (case cap self of
                  None \<Rightarrow> self
                | Some c \<Rightarrow> if opened c then self\<lparr>cap := Some (release c)\<rparr> else self);
          s2 = (case timer s1 of
                  None \<Rightarrow> s1
                | Some t \<Rightarrow> s1\<lparr>timer := Some (t\<lparr>active := False\<rparr>)\<rparr>)
      in s2\<lparr>is_running := False, status_bar := (txt_camera_stopped, None)\<rparr>)"

text \<open>\<open>FaceSwapUI.toggle_camera\<close>, the slot of the start button.\<close>

definition toggle_camera :: "py_exception + VideoCapture \<Rightarrow> 'face FaceSwapUI \<Rightarrow> 'face FaceSwapUI" where
  "toggle_camera device self =
     (if is_running self then (stop_camera self)\<lparr>start_button := txt_start\<rparr>
      else (start_camera device self)\<lparr>start_button := txt_stop\<rparr>)"

text \<open>
  \<open>FaceSwapUI.init_camera\<close>, first run one second after construction: while the loader
  thread is alive it shows the progress bar and asks to be run again in 500 ms; after
  that it hides the progress bar and the loading label.
\<close>

definition init_camera :: "'face FaceSwapUI \<Rightarrow> 'face FaceSwapUI" where
  "init_camera self =
     (if thread_is_alive (face_swapper self) then
        self\<lparr>progress_bar := (True, 50),
             single_shots := single_shots self @ [(500, Init_camera)]\<rparr>
      else
        self\<lparr>progress_bar := (False, snd (progress_bar self)), loading_label := False\<rparr>)"

subsection \<open>The frame loop\<close>

text \<open>The FPS bookkeeping of \<open>update_frame\<close>, with \<open>current_time\<close> the value of \<open>time.time()\<close>.\<close>

definition count_fps :: "real \<Rightarrow> 'face FaceSwapUI \<Rightarrow> 'face FaceSwapUI" where
  "count_fps current_time self =
     (let s1 = self\<lparr>frame_count := frame_count self + 1\<rparr> in
      if current_time - last_time s1 \<ge> 1 then
        s1\<lparr>fps := frame_count s1, frame_count := 0, last_time := current_time,
           fps_label := ''FPS: '' @ str_int (frame_count s1)\<rparr>
      else s1)"

text \<open>The last two lines of \<open>update_frame\<close>: show the frame in the preview label.\<close>

definition render :: "image option \<Rightarrow> 'face FaceSwapUI \<Rightarrow> 'face FaceSwapUI" where
  "render display_frame self =
     self\<lparr>cam_label := Some (Scaled 800 600 (cv2_to_pixmap display_frame))\<rparr>"

text \<open>
  The body of the \<open>try\<close> block of \<open>update_frame\<close>, run with the lock held: the new state
  and the frame to display, or the raise leaving the block. The records logged by
  \<open>swap_face\<close> reach \<open>handle_log\<close> through the log handler.
\<close>

definition swap_step ::
  "image option \<Rightarrow> 'face FaceSwapUI \<Rightarrow> py_raise + 'face FaceSwapUI \<times> image option" where
  "swap_step frame self =
     (if face_detection_check self \<and> src_img self \<noteq> None then
        (case swap_face (face_swapper self) (src_img self) frame of
           Inl e \<Rightarrow> Inl e
         | Inr (result, logs) \<Rightarrow>
             (let s1 = foldl handle_log (self\<lparr>swap_calls := swap_calls self @ [lock self]\<rparr>) logs;
                  display_frame = (if result \<noteq> None then result else frame)
              in if result \<noteq> None
                 then Inr (s1\<lparr>cam_status := (txt_face_found, style_green)\<rparr>, display_frame)
                 else Inr (s1\<lparr>cam_status := (txt_face_not_found, style_red)\<rparr>, display_frame)))
      else
        Inr (self\<lparr>cam_status :=
                    (if src_img self = None then txt_choose_source else txt_detection_disabled,
                     style_grey)\<rparr>,
             frame))"

text \<open>
  \<open>FaceSwapUI.update_frame\<close>, the slot of the frame timer. \<open>rd\<close> is what \<open>cap.read()\<close>
  returns on this tick, \<open>current_time\<close> what \<open>time.time()\<close> returns. The lock is taken
  without blocking; \<open>finally\<close> gives it back also when the block is left by a raise,
  which then leaves the method (\<open>Inl\<close>).
\<close>

definition update_frame ::
  "bool \<times> image option \<Rightarrow> real \<Rightarrow> 'face FaceSwapUI \<Rightarrow> py_raise + 'face FaceSwapUI" where
  "update_frame rd current_time self =
     (case cap self of
        None \<Rightarrow> Inr self
      | Some c \<Rightarrow>
          if \<not> opened c then Inr self
          else
            (let ret = fst rd; frame = snd rd in
             if \<not> ret then Inr self
             else
               (let s1 = count_fps current_time self in
                if \<not> lock s1 then
                  (case swap_step frame (s1\<lparr>lock := True\<rparr>) of
                     Inl e \<Rightarrow> Inl e
                   | Inr (s2, display_frame) \<Rightarrow> Inr (render display_frame (s2\<lparr>lock := False\<rparr>)))
                else Inr (render frame s1))))"

subsection \<open>The entry point\<close>

text \<open>
  The \<open>__main__\<close> block. \<open>startup\<close> is the outcome of the three lines inside \<open>try\<close>:
  \<open>Inl e\<close> when constructing or showing the window, or the event loop, raises \<open>e\<close>;
  \<open>Inr code\<close> when \<open>app.exec_()\<close> returns \<open>code\<close>, which \<open>sys.exit\<close> turns into
  \<open>SystemExit\<close>. That is no \<open>Exception\<close>, so the handler lets it pass and the process
  ends with that code. The handler shows a critical dialog and calls \<open>sys.exit(1)\<close>.
  The result is the dialogs shown and the exit status as the parent process reads it,
  the low eight bits of the code.
\<close>

definition main :: "py_exception + int \<Rightarrow> dialog list \<times> int" where
  "main startup =
     (case startup of
        Inl e \<Rightarrow> ([(Critical, txt_error, txt_startup_failed @ str_exc e)], 1)
      | Inr code \<Rightarrow> ([], code mod 256))"

subsection \<open>The selection invariant\<close>

text \<open>
  Every name listed in the selection box is a key of \<open>src_images\<close>, and the current
  index is \<open>-1\<close> for an empty box and a position of the list otherwise.
\<close>

definition selection_inv :: "'face FaceSwapUI \<Rightarrow> bool" where
  "selection_inv self =
     (list_all (\<lambda>name. src_images self name \<noteq> None) (items (source_combo self)) \<and>
      (if items (source_combo self) = [] then currentIndex (source_combo self) = - 1
       else 0 \<le> currentIndex (source_combo self) \<and>
            currentIndex (source_combo self) < count (source_combo self)))"

section \<open>Properties of the model wrapper\<close>



lemma swap_face_loaded:
  "\<not> thread_is_alive self \<Longrightarrow> app self = Some detect \<Longrightarrow> swapper self = Some swap \<Longrightarrow>
   swap_face self src dst =
     (case swap_face_try detect swap src dst of
        Inl (Raise e) \<Rightarrow> Inr (dst, [(ERROR, msg_swap_error @ str_exc e)])
      | Inl (Raise_base name) \<Rightarrow> Inl (Raise_base name)
      | Inr r \<Rightarrow> Inr r)"
  by (simp add: swap_face_def)


lemma swap_face_returns_or_passes:
  "(\<exists>img logs. swap_face self src dst = Inr (img, logs)) \<or>
   (\<exists>name. swap_face self src dst = Inl (Raise_base name))"
  by (auto simp: swap_face_def split: option.splits sum.splits py_raise.splits)






text \<open>
  Claim C3. With loading finished, both models present and at least one face detected
  in each image, the call returns what the swap model returns for the target image, the
  first target face and the first source face (\<open>paste_back=True\<close>), and logs nothing.
\<close>

theorem swap_face_composites_first_faces:
  assumes "\<not> thread_is_alive self"
    and "app self = Some detect" and "swapper self = Some swap"
    and "detect src = Inr src_faces" and "detect dst = Inr dst_faces"
    and "src_faces \<noteq> []" and "dst_faces \<noteq> []"
    and "swap dst (dst_faces ! 0) (src_faces ! 0) = Inr result"
  shows "swap_face self src dst = Inr (result, [])"
  using assms by (simp add: swap_face_loaded swap_face_try_def)

theorem swap_face_composites_first_faces_witness:
  "(let detect = (\<lambda>img::nat. Inr [img + 1, img + 2 :: nat]);
        swap = (\<lambda>img tgt src. Inr (100 * img + 10 * tgt + src));
        self = \<lparr>app = Some detect, swapper = Some swap, thread_is_alive = False\<rparr>
    in \<not> thread_is_alive self \<and> detect 3 = Inr [4, 5] \<and> detect 7 = Inr [8, 9]
       \<and> swap 7 ([8, 9] ! 0) ([4, 5] ! 0) = Inr 784
       \<and> swap_face self 3 7 = Inr (784, []))"
proof -
  let ?detect = "\<lambda>img::nat. (Inr [img + 1, img + 2 :: nat] :: py_raise + nat list)"
  let ?swap = "\<lambda>(img::nat) (tgt::nat) (src::nat). (Inr (100 * img + 10 * tgt + src) :: py_raise + nat)"
  let ?self = "\<lparr>app = Some ?detect, swapper = Some ?swap, thread_is_alive = False\<rparr>"
  have "swap_face ?self 3 7 = Inr (784, [])"
    by (rule swap_face_composites_first_faces [where detect = ?detect and swap = ?swap
          and src_faces = "[4, 5]" and dst_faces = "[8, 9]"]) simp_all
  then show ?thesis by (simp add: Let_def)
qed

section \<open>Properties of the GUI shell\<close>

subsection \<open>What the helper steps leave alone\<close>

lemma handle_log_keeps:
  "swap_calls (handle_log self r) = swap_calls self"
  "lock (handle_log self r) = lock self"
  by (cases r; cases "fst r"; simp add: handle_log_def message_box_def Let_def)+

lemma foldl_handle_log_keeps:
  "swap_calls (foldl handle_log self logs) = swap_calls self \<and>
   lock (foldl handle_log self logs) = lock self"
  by (induction logs arbitrary: self) (simp_all add: handle_log_keeps)

lemma count_fps_keeps:
  "lock (count_fps t self) = lock self"
  "swap_calls (count_fps t self) = swap_calls self"
  "face_swapper (count_fps t self) = face_swapper self"
  "src_img (count_fps t self) = src_img self"
  by (simp_all add: count_fps_def Let_def)

lemma swap_step_returns:
  "(\<exists>s2 d. swap_step frame self = Inr (s2, d) \<and> lock s2 = lock self \<and>
          (swap_calls s2 = swap_calls self \<or> swap_calls s2 = swap_calls self @ [lock self])) \<or>
   (\<exists>name. swap_step frame self = Inl (Raise_base name) \<and>
          swap_face (face_swapper self) (src_img self) frame = Inl (Raise_base name))"
proof (cases "face_detection_check self \<and> src_img self \<noteq> None")
  case True
  from swap_face_returns_or_passes [of "face_swapper self" "src_img self" frame]
  show ?thesis
  proof
    assume "\<exists>img logs. swap_face (face_swapper self) (src_img self) frame = Inr (img, logs)"
    then obtain img logs
      where sf: "swap_face (face_swapper self) (src_img self) frame = Inr (img, logs)"
      by blast
    from True sf show ?thesis
      by (simp add: swap_step_def Let_def foldl_handle_log_keeps)
  next
    assume "\<exists>name. swap_face (face_swapper self) (src_img self) frame = Inl (Raise_base name)"
    then obtain name
      where sf: "swap_face (face_swapper self) (src_img self) frame = Inl (Raise_base name)"
      by blast
    from True sf show ?thesis
      by (simp add: swap_step_def)
  qed
next
  case False
  then show ?thesis by (auto simp: swap_step_def)
qed

text \<open>
  Claim C4. The swap call of \<open>update_frame\<close> is made only with the lock held: a tick
  returns and adds to \<open>swap_calls\<close> at most one entry, which is \<open>True\<close>; the one way
  for a tick not to return is that the swap call, made after this tick took the lock,
  lets a raise that is no \<open>Exception\<close> pass. On a tick that finds the lock taken, the
  non-blocking acquisition fails: no call of \<open>swap_face\<close> is made, the raw camera frame
  is rendered, nothing is queued and the lock stays with its holder.
\<close>

theorem update_frame_swaps_only_under_lock:
  "((\<exists>s'. update_frame rd t self = Inr s' \<and>
         (swap_calls s' = swap_calls self \<or> swap_calls s' = swap_calls self @ [True])) \<or>
    (\<exists>name. \<not> lock self \<and> update_frame rd t self = Inl (Raise_base name) \<and>
         swap_face (face_swapper self) (src_img self) (snd rd) = Inl (Raise_base name))) \<and>
   (lock self \<longrightarrow>
      (\<exists>s'. update_frame rd t self = Inr s' \<and> swap_calls s' = swap_calls self \<and> lock s' \<and>
            single_shots s' = single_shots self) \<and>
      (\<forall>c. cap self = Some c \<and> opened c \<and> fst rd \<longrightarrow>
           update_frame rd t self = Inr (render (snd rd) (count_fps t self))))"
proof (intro conjI impI allI)
  show "(\<exists>s'. update_frame rd t self = Inr s' \<and>
         (swap_calls s' = swap_calls self \<or> swap_calls s' = swap_calls self @ [True])) \<or>
    (\<exists>name. \<not> lock self \<and> update_frame rd t self = Inl (Raise_base name) \<and>
         swap_face (face_swapper self) (src_img self) (snd rd) = Inl (Raise_base name))"
  proof (cases "\<exists>c. cap self = Some c \<and> opened c \<and> fst rd")
    case False
    then have "update_frame rd t self = Inr self"
      by (auto simp: update_frame_def Let_def split: option.splits)
    then show ?thesis by simp
  next
    case True
    then obtain c where c: "cap self = Some c" "opened c" "fst rd" by blast
    show ?thesis
    proof (cases "lock self")
      case True
      with c have "update_frame rd t self = Inr (render (snd rd) (count_fps t self))"
        by (simp add: update_frame_def Let_def count_fps_keeps)
      then show ?thesis by (simp add: render_def count_fps_keeps)
    next
      case False
      let ?s = "(count_fps t self)\<lparr>lock := True\<rparr>"
      from swap_step_returns [of "snd rd" ?s] show ?thesis
      proof
        assume "\<exists>s2 d. swap_step (snd rd) ?s = Inr (s2, d) \<and> lock s2 = lock ?s \<and>
          (swap_calls s2 = swap_calls ?s \<or> swap_calls s2 = swap_calls ?s @ [lock ?s])"
        then obtain s2 d where st: "swap_step (snd rd) ?s = Inr (s2, d)"
          and sc: "swap_calls s2 = swap_calls ?s \<or> swap_calls s2 = swap_calls ?s @ [lock ?s]"
          by blast
        from c False st have "update_frame rd t self = Inr (render d (s2\<lparr>lock := False\<rparr>))"
          by (simp add: update_frame_def Let_def count_fps_keeps)
        with sc show ?thesis by (simp add: render_def count_fps_keeps)
      next
        assume "\<exists>name. swap_step (snd rd) ?s = Inl (Raise_base name) \<and>
          swap_face (face_swapper ?s) (src_img ?s) (snd rd) = Inl (Raise_base name)"
        then obtain name where st: "swap_step (snd rd) ?s = Inl (Raise_base name)"
          and sf: "swap_face (face_swapper ?s) (src_img ?s) (snd rd) = Inl (Raise_base name)"
          by blast
        from c False st have "update_frame rd t self = Inl (Raise_base name)"
          by (simp add: update_frame_def Let_def count_fps_keeps)
        moreover from sf
        have "swap_face (face_swapper self) (src_img self) (snd rd) = Inl (Raise_base name)"
          by (simp add: count_fps_keeps)
        ultimately show ?thesis using False by blast
      qed
    qed
  qed
next
  assume held: "lock self"
  show "\<exists>s'. update_frame rd t self = Inr s' \<and> swap_calls s' = swap_calls self \<and> lock s' \<and>
            single_shots s' = single_shots self"
    using held
    by (auto simp: update_frame_def Let_def count_fps_keeps count_fps_def render_def
             split: option.splits)
next
  fix c
  assume "lock self" and "cap self = Some c \<and> opened c \<and> fst rd"
  then show "update_frame rd t self = Inr (render (snd rd) (count_fps t self))"
    by (simp add: update_frame_def Let_def count_fps_keeps)
qed

theorem update_frame_swaps_only_under_lock_witness:
  "lock ((FaceSwapUI_init 0 :: unit FaceSwapUI)
           \<lparr>lock := True, cap := Some \<lparr>opened = True, frame_width = 640, frame_height = 480\<rparr>\<rparr>) \<and>
   opened \<lparr>opened = True, frame_width = 640, frame_height = 480\<rparr> \<and>
   fst (True, Some [[[1, 2, 3]]] :: image option) \<and>
   update_frame (True, Some [[[1, 2, 3]]]) (1 / 2)
     ((FaceSwapUI_init 0 :: unit FaceSwapUI)
        \<lparr>lock := True, cap := Some \<lparr>opened = True, frame_width = 640, frame_height = 480\<rparr>\<rparr>)
   = Inr ((FaceSwapUI_init 0)
            \<lparr>lock := True, cap := Some \<lparr>opened = True, frame_width = 640, frame_height = 480\<rparr>,
             frame_count := 1,
             cam_label := Some (Scaled 800 600 (From_image [[[1, 2, 3]]]))\<rparr>)"
  using update_frame_swaps_only_under_lock
    [of "(True, Some [[[1, 2, 3]]])" "1 / 2"
        "(FaceSwapUI_init 0 :: unit FaceSwapUI)
           \<lparr>lock := True, cap := Some \<lparr>opened = True, frame_width = 640, frame_height = 480\<rparr>\<rparr>"]
  by (simp add: FaceSwapUI_init_def render_def count_fps_def)

text \<open>
  Claim C6. After \<open>stop_camera\<close> a capture that was open has been released, so no open
  capture is left; a timer that exists has been stopped; and \<open>is_running\<close> is false.
\<close>

theorem stop_camera_releases_and_halts:
  "(\<forall>c. cap self = Some c \<and> opened c \<longrightarrow> cap (stop_camera self) = Some (release c)) \<and>
   (\<forall>c. cap (stop_camera self) = Some c \<longrightarrow> \<not> opened c) \<and>
   (\<forall>t. timer self = Some t \<longrightarrow> timer (stop_camera self) = Some (t\<lparr>active := False\<rparr>)) \<and>
   (\<forall>t. timer (stop_camera self) = Some t \<longrightarrow> \<not> active t) \<and>
   \<not> is_running (stop_camera self)"
  by (auto simp: stop_camera_def release_def Let_def split: option.splits if_splits)

theorem stop_camera_releases_and_halts_witness:
  "cap ((FaceSwapUI_init 0 :: unit FaceSwapUI)
          \<lparr>cap := Some \<lparr>opened = True, frame_width = 640, frame_height = 480\<rparr>,
           timer := Some \<lparr>active = True, interval = 30\<rparr>\<rparr>)
     = Some \<lparr>opened = True, frame_width = 640, frame_height = 480\<rparr> \<and>
   opened \<lparr>opened = True, frame_width = 640, frame_height = 480\<rparr> \<and>
   cap (stop_camera ((FaceSwapUI_init 0 :: unit FaceSwapUI)
          \<lparr>cap := Some \<lparr>opened = True, frame_width = 640, frame_height = 480\<rparr>,
           timer := Some \<lparr>active = True, interval = 30\<rparr>\<rparr>))
     = Some \<lparr>opened = False, frame_width = 640, frame_height = 480\<rparr> \<and>
   timer (stop_camera ((FaceSwapUI_init 0 :: unit FaceSwapUI)
          \<lparr>cap := Some \<lparr>opened = True, frame_width = 640, frame_height = 480\<rparr>,
           timer := Some \<lparr>active = True, interval = 30\<rparr>\<rparr>))
     = Some \<lparr>active = False, interval = 30\<rparr>"
  using stop_camera_releases_and_halts
    [of "(FaceSwapUI_init 0 :: unit FaceSwapUI)
          \<lparr>cap := Some \<lparr>opened = True, frame_width = 640, frame_height = 480\<rparr>,
           timer := Some \<lparr>active = True, interval = 30\<rparr>\<rparr>"]
  by (simp add: release_def)

text \<open>
  Claim C9. A freshly constructed window has \<open>is_running\<close> true although it has neither
  capture nor timer, so the first \<open>toggle_camera\<close> takes the stop branch: it is
  \<open>stop_camera\<close> followed by setting the button to the start label, and the camera is
  not started.
\<close>

theorem first_toggle_stops:
  "is_running (FaceSwapUI_init now) \<and>
   cap (FaceSwapUI_init now) = None \<and> timer (FaceSwapUI_init now) = None \<and>
   toggle_camera device (FaceSwapUI_init now)
     = (stop_camera (FaceSwapUI_init now))\<lparr>start_button := txt_start\<rparr> \<and>
   cap (toggle_camera device (FaceSwapUI_init now)) = None \<and>
   timer (toggle_camera device (FaceSwapUI_init now)) = None \<and>
   \<not> is_running (toggle_camera device (FaceSwapUI_init now))"
  by (simp add: toggle_camera_def stop_camera_def FaceSwapUI_init_def)

text \<open>
  Claim C10. When there is no capture object, or the capture is not open, or the read
  reports failure, \<open>update_frame\<close> returns at once and the whole state is as before:
  in particular \<open>fps\<close>, \<open>frame_count\<close>, \<open>last_time\<close>, the camera status and the
  displayed pixmap.
\<close>

theorem update_frame_early_return:
  assumes "cap self = None \<or> (\<exists>c. cap self = Some c \<and> \<not> opened c) \<or> \<not> fst rd"
  shows "update_frame rd current_time self = Inr self"
  using assms by (auto simp: update_frame_def Let_def split: option.splits)

theorem update_frame_early_return_witness:
  "\<not> fst (False, None :: image option) \<and>
   update_frame (False, None) 5
     ((FaceSwapUI_init 0 :: unit FaceSwapUI)
        \<lparr>cap := Some \<lparr>opened = True, frame_width = 640, frame_height = 480\<rparr>\<rparr>)
   = Inr ((FaceSwapUI_init 0)
        \<lparr>cap := Some \<lparr>opened = True, frame_width = 640, frame_height = 480\<rparr>\<rparr>)"
  using update_frame_early_return
    [of "(FaceSwapUI_init 0 :: unit FaceSwapUI)
        \<lparr>cap := Some \<lparr>opened = True, frame_width = 640, frame_height = 480\<rparr>\<rparr>"
        "(False, None)" 5]
  by simp

subsection \<open>Loading and the camera\<close>


lemma resolution_parses:
  "split_on CHR ''x'' ''640x480'' = [''640'', ''480'']"
  "py_int ''640'' = Inr 640"
  "py_int ''480'' = Inr 480"
  by (simp_all add: py_int_def is_digit_def)

lemma start_camera_opened:
  assumes "opened c"
    and "split_on CHR ''x'' (currentText (resolution_combo self)) = [ws, hs]"
    and "py_int ws = Inr w" and "py_int hs = Inr h"
  shows "start_camera (Inr c) self =
           self\<lparr>cap := Some (c\<lparr>frame_width := w, frame_height := h\<rparr>),
                timer := Some \<lparr>active = True, interval = 30\<rparr>,
                is_running := True,
                status_bar := (txt_camera_started, None)\<rparr>"
  using assms by (simp add: start_camera_def Let_def py_index_def)

text \<open>
  Claim C5, as amended. The GUI polls the loader thread: \<open>init_camera\<close> shows the
  progress bar and re-arms itself for 500 ms later while the thread is alive, and hides
  the progress bar and the loading label once it has ended; it never touches capture,
  timer or \<open>is_running\<close>. \<open>start_camera\<close> does not consult the loader: its effect is the
  same whatever the state of the loader, and with a device that opens it stores the
  capture, starts the 30 ms frame timer and sets \<open>is_running\<close>.
\<close>

theorem init_camera_polls_and_start_camera_is_ungated:
  "(thread_is_alive (face_swapper self) \<longrightarrow>
      init_camera self =
        self\<lparr>progress_bar := (True, 50),
             single_shots := single_shots self @ [(500, Init_camera)]\<rparr>) \<and>
   (\<not> thread_is_alive (face_swapper self) \<longrightarrow>
      init_camera self =
        self\<lparr>progress_bar := (False, snd (progress_bar self)), loading_label := False\<rparr>) \<and>
   cap (init_camera self) = cap self \<and> timer (init_camera self) = timer self \<and>
   is_running (init_camera self) = is_running self \<and>
   start_camera device (self\<lparr>face_swapper := fs\<rparr>)
     = (start_camera device self)\<lparr>face_swapper := fs\<rparr> \<and>
   (opened c \<and> split_on CHR ''x'' (currentText (resolution_combo self)) = [ws, hs] \<and>
    py_int ws = Inr w \<and> py_int hs = Inr h \<longrightarrow>
      start_camera (Inr c) self =
        self\<lparr>cap := Some (c\<lparr>frame_width := w, frame_height := h\<rparr>),
             timer := Some \<lparr>active = True, interval = 30\<rparr>,
             is_running := True,
             status_bar := (txt_camera_started, None)\<rparr>)"
proof (intro conjI impI)
  show "start_camera device (self\<lparr>face_swapper := fs\<rparr>)
     = (start_camera device self)\<lparr>face_swapper := fs\<rparr>"
    by (simp add: start_camera_def camera_init_failed_def message_box_def Let_def
             split: sum.splits)
next
  assume "opened c \<and> split_on CHR ''x'' (currentText (resolution_combo self)) = [ws, hs] \<and>
    py_int ws = Inr w \<and> py_int hs = Inr h"
  then show "start_camera (Inr c) self =
        self\<lparr>cap := Some (c\<lparr>frame_width := w, frame_height := h\<rparr>),
             timer := Some \<lparr>active = True, interval = 30\<rparr>,
             is_running := True,
             status_bar := (txt_camera_started, None)\<rparr>"
    by (simp add: start_camera_opened)
qed (simp_all add: init_camera_def)

theorem init_camera_polls_and_start_camera_is_ungated_witness:
  "thread_is_alive (face_swapper (FaceSwapUI_init 0 :: unit FaceSwapUI)) \<and>
   init_camera (FaceSwapUI_init 0 :: unit FaceSwapUI)
     = (FaceSwapUI_init 0)\<lparr>progress_bar := (True, 50),
                           single_shots := [(1000, Init_camera), (500, Init_camera)]\<rparr> \<and>
   \<not> thread_is_alive (face_swapper
        ((FaceSwapUI_init 0 :: unit FaceSwapUI)
           \<lparr>face_swapper := FaceSwapper_init\<lparr>thread_is_alive := False\<rparr>\<rparr>)) \<and>
   init_camera ((FaceSwapUI_init 0 :: unit FaceSwapUI)
           \<lparr>face_swapper := FaceSwapper_init\<lparr>thread_is_alive := False\<rparr>\<rparr>)
     = (FaceSwapUI_init 0)
           \<lparr>face_swapper := FaceSwapper_init\<lparr>thread_is_alive := False\<rparr>,
            progress_bar := (False, 0), loading_label := False\<rparr> \<and>
   opened \<lparr>opened = True, frame_width = 0, frame_height = 0\<rparr> \<and>
   split_on CHR ''x'' (currentText (resolution_combo (FaceSwapUI_init 0 :: unit FaceSwapUI)))
     = [''640'', ''480''] \<and>
   py_int ''640'' = Inr 640 \<and> py_int ''480'' = Inr 480 \<and>
   start_camera (Inr \<lparr>opened = True, frame_width = 0, frame_height = 0\<rparr>)
       (FaceSwapUI_init 0 :: unit FaceSwapUI)
     = (FaceSwapUI_init 0)
         \<lparr>cap := Some \<lparr>opened = True, frame_width = 640, frame_height = 480\<rparr>,
          timer := Some \<lparr>active = True, interval = 30\<rparr>,
          is_running := True,
          status_bar := (txt_camera_started, None)\<rparr>"
proof -
  let ?s = "FaceSwapUI_init 0 :: unit FaceSwapUI"
  let ?d = "?s\<lparr>face_swapper := FaceSwapper_init\<lparr>thread_is_alive := False\<rparr>\<rparr>"
  let ?c = "\<lparr>opened = True, frame_width = 0, frame_height = 0\<rparr>"
  have alive: "thread_is_alive (face_swapper ?s)"
    by (simp add: FaceSwapUI_init_def FaceSwapper_init_def)
  have fin: "\<not> thread_is_alive (face_swapper ?d)"
    by simp
  have res: "split_on CHR ''x'' (currentText (resolution_combo ?s)) = [''640'', ''480'']"
    by (simp add: FaceSwapUI_init_def currentText_def count_def)
  note thm1 = init_camera_polls_and_start_camera_is_ungated
                [of ?s "Inr ?c" FaceSwapper_init ?c "''640''" "''480''" 640 480]
  note thm2 = init_camera_polls_and_start_camera_is_ungated
                [of ?d "Inr ?c" FaceSwapper_init ?c "''640''" "''480''" 640 480]
  from thm1 [THEN conjunct1] alive have a: "init_camera ?s =
      ?s\<lparr>progress_bar := (True, 50), single_shots := single_shots ?s @ [(500, Init_camera)]\<rparr>"
    by simp
  from thm2 [THEN conjunct2, THEN conjunct1] fin have b: "init_camera ?d =
      ?d\<lparr>progress_bar := (False, snd (progress_bar ?d)), loading_label := False\<rparr>"
    by simp
  from thm1 [THEN conjunct2, THEN conjunct2, THEN conjunct2, THEN conjunct2, THEN conjunct2,
              THEN conjunct2] res resolution_parses(2,3) have c: "start_camera (Inr ?c) ?s =
      ?s\<lparr>cap := Some (?c\<lparr>frame_width := 640, frame_height := 480\<rparr>),
         timer := Some \<lparr>active = True, interval = 30\<rparr>,
         is_running := True,
         status_bar := (txt_camera_started, None)\<rparr>"
    by simp
  have a': "?s\<lparr>progress_bar := (True, 50), single_shots := single_shots ?s @ [(500, Init_camera)]\<rparr>
     = ?s\<lparr>progress_bar := (True, 50),
          single_shots := [(1000, Init_camera), (500, Init_camera)]\<rparr>"
    by (simp add: FaceSwapUI_init_def)
  have b': "?d\<lparr>progress_bar := (False, snd (progress_bar ?d)), loading_label := False\<rparr>
     = ?d\<lparr>progress_bar := (False, 0), loading_label := False\<rparr>"
    by (simp add: FaceSwapUI_init_def)
  have c': "start_camera (Inr ?c) ?s =
      ?s\<lparr>cap := Some \<lparr>opened = True, frame_width = 640, frame_height = 480\<rparr>,
         timer := Some \<lparr>active = True, interval = 30\<rparr>,
         is_running := True,
         status_bar := (txt_camera_started, None)\<rparr>"
    using c by simp
  have op: "opened ?c"
    by simp
  show ?thesis
    by (intro conjI)
       (rule alive trans [OF a a'] fin trans [OF b b'] op res resolution_parses c')+
qed

text \<open>
  The claim as first stated fails: in a fresh window, whose loader thread is still
  alive and which has just polled it, two clicks on the start button (the first takes
  the stop branch) open the capture and start the frame timer.
\<close>

theorem camera_enabled_while_loading_counterexample:
  "thread_is_alive (face_swapper
     (toggle_camera (Inr \<lparr>opened = True, frame_width = 0, frame_height = 0\<rparr>)
       (toggle_camera (Inr \<lparr>opened = True, frame_width = 0, frame_height = 0\<rparr>)
         (init_camera (FaceSwapUI_init 0 :: unit FaceSwapUI))))) \<and>
   is_running
     (toggle_camera (Inr \<lparr>opened = True, frame_width = 0, frame_height = 0\<rparr>)
       (toggle_camera (Inr \<lparr>opened = True, frame_width = 0, frame_height = 0\<rparr>)
         (init_camera (FaceSwapUI_init 0 :: unit FaceSwapUI)))) \<and>
   cap
     (toggle_camera (Inr \<lparr>opened = True, frame_width = 0, frame_height = 0\<rparr>)
       (toggle_camera (Inr \<lparr>opened = True, frame_width = 0, frame_height = 0\<rparr>)
         (init_camera (FaceSwapUI_init 0 :: unit FaceSwapUI))))
     = Some \<lparr>opened = True, frame_width = 640, frame_height = 480\<rparr> \<and>
   timer
     (toggle_camera (Inr \<lparr>opened = True, frame_width = 0, frame_height = 0\<rparr>)
       (toggle_camera (Inr \<lparr>opened = True, frame_width = 0, frame_height = 0\<rparr>)
         (init_camera (FaceSwapUI_init 0 :: unit FaceSwapUI))))
     = Some \<lparr>active = True, interval = 30\<rparr>"
proof -
  let ?c = "\<lparr>opened = True, frame_width = 0, frame_height = 0\<rparr>"
  let ?s0 = "init_camera (FaceSwapUI_init 0 :: unit FaceSwapUI)"
  let ?s1 = "toggle_camera (Inr ?c) ?s0"
  have s1: "\<not> is_running ?s1 \<and> thread_is_alive (face_swapper ?s1) \<and>
            resolution_combo ?s1 = resolution_combo (FaceSwapUI_init 0 :: unit FaceSwapUI)"
    by (simp add: toggle_camera_def stop_camera_def init_camera_def FaceSwapUI_init_def
          FaceSwapper_init_def)
  have res: "split_on CHR ''x'' (currentText (resolution_combo ?s1)) = [''640'', ''480'']"
    using s1 by (simp add: FaceSwapUI_init_def currentText_def count_def)
  have "start_camera (Inr ?c) ?s1 =
      ?s1\<lparr>cap := Some (?c\<lparr>frame_width := 640, frame_height := 480\<rparr>),
          timer := Some \<lparr>active = True, interval = 30\<rparr>,
          is_running := True,
          status_bar := (txt_camera_started, None)\<rparr>"
    by (rule start_camera_opened [OF _ res resolution_parses(2,3)]) simp
  with s1 show ?thesis
    by (simp add: toggle_camera_def)
qed

subsection \<open>The source-image collection\<close>

lemma selection_inv_message_box:
  "selection_inv (message_box kind title body self) = selection_inv self"
  by (simp add: selection_inv_def message_box_def)

lemma currentText_listed:
  assumes "0 \<le> currentIndex box" and "currentIndex box < count box"
  shows "currentText box \<in> set (items box)"
  using assms by (simp add: currentText_def count_def)

lemma selection_inv_lookup:
  assumes "selection_inv self" and "items (source_combo self) \<noteq> []"
  shows "\<exists>img. src_images self (currentText (source_combo self)) = Some img"
proof -
  from assms have "currentText (source_combo self) \<in> set (items (source_combo self))"
    by (simp add: selection_inv_def currentText_listed)
  moreover from assms have "\<forall>name \<in> set (items (source_combo self)). src_images self name \<noteq> None"
    by (simp add: selection_inv_def list_all_iff)
  ultimately show ?thesis by blast
qed

lemma change_source_image_inv:
  assumes "selection_inv self"
  shows "\<exists>s'. change_source_image index self = Inr s' \<and> selection_inv s' \<and>
              source_combo s' = source_combo self \<and> src_images s' = src_images self"
proof (cases "index \<ge> 0 \<and> index < count (source_combo self)")
  case False
  then have "change_source_image index self = Inr self"
    by (auto simp: change_source_image_def)
  with assms show ?thesis by simp
next
  case True
  then have "items (source_combo self) \<noteq> []"
    by (auto simp: count_def)
  with assms obtain img where "src_images self (currentText (source_combo self)) = Some img"
    using selection_inv_lookup by blast
  with True assms show ?thesis
    by (simp add: change_source_image_def Let_def selection_inv_def)
qed

lemma insert_item_inv:
  assumes "selection_inv self"
  shows "selection_inv (insert_item name (self\<lparr>src_images := (src_images self)(name \<mapsto> img)\<rparr>))"
  using assms
  by (auto simp: selection_inv_def insert_item_def count_def list_all_iff)

lemma addItem_inv:
  assumes "selection_inv self"
  shows "\<exists>s'. addItem name (self\<lparr>src_images := (src_images self)(name \<mapsto> img)\<rparr>) = Inr s' \<and>
              selection_inv s'"
proof -
  let ?s = "insert_item name (self\<lparr>src_images := (src_images self)(name \<mapsto> img)\<rparr>)"
  have inv: "selection_inv ?s" using assms by (rule insert_item_inv)
  from change_source_image_inv [OF inv, of 0] inv show ?thesis
    by (auto simp: addItem_def)
qed

lemma add_source_file_inv:
  assumes "selection_inv self"
  shows "selection_inv (add_source_file imread self file)"
proof (cases "imread file")
  case (Inl e)
  with assms show ?thesis
    by (simp add: add_source_file_def selection_inv_message_box)
next
  case (Inr r)
  show ?thesis
  proof (cases r)
    case None
    with Inr assms show ?thesis by (simp add: add_source_file_def)
  next
    case (Some img)
    let ?s1 = "self\<lparr>src_images := (src_images self)(basename file \<mapsto> img)\<rparr>"
    obtain s2 where s2: "addItem (basename file) ?s1 = Inr s2" "selection_inv s2"
      using addItem_inv [OF assms] by blast
    obtain s3 where s3: "change_source_image 0 s2 = Inr s3" "selection_inv s3"
      using change_source_image_inv [OF s2(2)] by blast
    from Inr Some s2 s3 show ?thesis
      by (simp add: add_source_file_def Let_def)
  qed
qed

lemma add_source_image_inv:
  assumes "selection_inv self"
  shows "selection_inv (add_source_image accepted files imread self)"
proof -
  have "selection_inv (foldl (add_source_file imread) s files)" if "selection_inv s" for s
    using that by (induction files arbitrary: s) (simp_all add: add_source_file_inv)
  from this [OF assms] assms show ?thesis by (simp add: add_source_image_def)
qed

lemma select_item_inv:
  assumes "selection_inv self"
  shows "\<exists>s'. select_item i self = Inr s' \<and> selection_inv s'"
proof (cases "0 \<le> i \<and> i < count (source_combo self) \<and> i \<noteq> currentIndex (source_combo self)")
  case False
  with assms show ?thesis by (auto simp: select_item_def)
next
  case True
  let ?s = "self\<lparr>source_combo := (source_combo self)\<lparr>currentIndex := i\<rparr>\<rparr>"
  from True assms have "selection_inv ?s"
    by (auto simp: selection_inv_def count_def)
  from change_source_image_inv [OF this, of i] True show ?thesis
    by (auto simp: select_item_def)
qed

text \<open>
  Claim C7. The selection invariant holds in a fresh window and after every operation
  on the source-image collection (\<open>add_source_image\<close>, \<open>change_source_image\<close>, the user
  picking an entry): every name listed in the box is a key of \<open>src_images\<close>, the
  look-up of \<open>change_source_image\<close> never fails, and the current text of a non-empty
  box is a key. For an index outside \<open>[0, count)\<close> \<open>change_source_image\<close> does not read
  the dictionary and changes nothing.
\<close>

theorem selection_references_existing_entry:
  "selection_inv (FaceSwapUI_init now) \<and>
   (selection_inv self \<longrightarrow>
      selection_inv (add_source_image accepted files imread self) \<and>
      (\<exists>s'. change_source_image index self = Inr s' \<and> selection_inv s') \<and>
      (\<exists>s'. select_item i self = Inr s' \<and> selection_inv s') \<and>
      list_all (\<lambda>name. name \<in> dom (src_images self)) (items (source_combo self)) \<and>
      (items (source_combo self) \<noteq> [] \<longrightarrow>
         (\<exists>img. src_images self (currentText (source_combo self)) = Some img))) \<and>
   (\<not> (0 \<le> index \<and> index < count (source_combo self)) \<longrightarrow>
      change_source_image index self = Inr self)"
proof (intro conjI impI)
  show "selection_inv (FaceSwapUI_init now)"
    by (simp add: selection_inv_def FaceSwapUI_init_def)
next
  assume "selection_inv self"
  then show "selection_inv (add_source_image accepted files imread self)"
    by (rule add_source_image_inv)
next
  assume "selection_inv self"
  from change_source_image_inv [OF this, of index]
  show "\<exists>s'. change_source_image index self = Inr s' \<and> selection_inv s'"
    by blast
next
  assume "selection_inv self"
  then show "\<exists>s'. select_item i self = Inr s' \<and> selection_inv s'"
    by (rule select_item_inv)
next
  assume "selection_inv self"
  then show "list_all (\<lambda>name. name \<in> dom (src_images self)) (items (source_combo self))"
    by (auto simp: selection_inv_def list_all_iff)
next
  assume "selection_inv self" and "items (source_combo self) \<noteq> []"
  then show "\<exists>img. src_images self (currentText (source_combo self)) = Some img"
    by (rule selection_inv_lookup)
next
  assume "\<not> (0 \<le> index \<and> index < count (source_combo self))"
  then show "change_source_image index self = Inr self"
    by (auto simp: change_source_image_def)
qed

lemma add_first_image_example:
  "add_source_image True [''/home/u/face.png''] (\<lambda>f. Inr (Some [[[1, 2, 3]]]))
     (FaceSwapUI_init 0 :: unit FaceSwapUI)
   = (FaceSwapUI_init 0)
       \<lparr>src_img := Some [[[1, 2, 3]]],
        src_images := [''face.png'' \<mapsto> [[[1, 2, 3]]]],
        source_combo := \<lparr>items = [''face.png''], currentIndex = 0\<rparr>,
        src_label := Some (Scaled 600 450 (From_image [[[1, 2, 3]]])),
        src_status := (txt_waiting_face, style_grey)\<rparr>"
  by (simp add: add_source_image_def add_source_file_def addItem_def insert_item_def
        change_source_image_def basename_def FaceSwapUI_init_def count_def currentText_def
        Let_def)

theorem selection_references_existing_entry_witness:
  "selection_inv
     (add_source_image True [''/home/u/face.png''] (\<lambda>f. Inr (Some [[[1, 2, 3]]]))
        (FaceSwapUI_init 0 :: unit FaceSwapUI)) \<and>
   items (source_combo
     (add_source_image True [''/home/u/face.png''] (\<lambda>f. Inr (Some [[[1, 2, 3]]]))
        (FaceSwapUI_init 0 :: unit FaceSwapUI))) \<noteq> [] \<and>
   (\<exists>img. src_images
     (add_source_image True [''/home/u/face.png''] (\<lambda>f. Inr (Some [[[1, 2, 3]]]))
        (FaceSwapUI_init 0 :: unit FaceSwapUI))
     (currentText (source_combo
       (add_source_image True [''/home/u/face.png''] (\<lambda>f. Inr (Some [[[1, 2, 3]]]))
          (FaceSwapUI_init 0 :: unit FaceSwapUI)))) = Some img) \<and>
   \<not> (0 \<le> (5::int) \<and> 5 < count (source_combo
     (add_source_image True [''/home/u/face.png''] (\<lambda>f. Inr (Some [[[1, 2, 3]]]))
        (FaceSwapUI_init 0 :: unit FaceSwapUI)))) \<and>
   change_source_image 5
     (add_source_image True [''/home/u/face.png''] (\<lambda>f. Inr (Some [[[1, 2, 3]]]))
        (FaceSwapUI_init 0 :: unit FaceSwapUI))
   = Inr (add_source_image True [''/home/u/face.png''] (\<lambda>f. Inr (Some [[[1, 2, 3]]]))
        (FaceSwapUI_init 0 :: unit FaceSwapUI))"
proof -
  let ?s0 = "FaceSwapUI_init 0 :: unit FaceSwapUI"
  let ?rd = "\<lambda>f::string. (Inr (Some [[[1, 2, 3]]]) :: py_exception + image option)"
  let ?s1 = "add_source_image True [''/home/u/face.png''] ?rd ?s0"
  note at0 = selection_references_existing_entry
               [where now = 0 and self = ?s0 and accepted = True
                  and files = "[''/home/u/face.png'']" and imread = ?rd
                  and index = 0 and i = 0]
  note at1 = selection_references_existing_entry
               [where now = 0 and self = ?s1 and accepted = True
                  and files = "[]" and imread = ?rd and index = 5 and i = 0]
  have inv0: "selection_inv ?s0"
    by (rule at0 [THEN conjunct1])
  have inv1: "selection_inv ?s1"
    using at0 [THEN conjunct2, THEN conjunct1] inv0 by blast
  have ne: "items (source_combo ?s1) \<noteq> []"
    by (simp add: add_first_image_example)
  have lk: "\<exists>img. src_images ?s1 (currentText (source_combo ?s1)) = Some img"
    using at1 [THEN conjunct2, THEN conjunct1] inv1 ne by blast
  have out: "\<not> (0 \<le> (5::int) \<and> 5 < count (source_combo ?s1))"
    by (simp add: add_first_image_example count_def)
  have same: "change_source_image 5 ?s1 = Inr ?s1"
    using at1 [THEN conjunct2, THEN conjunct2] out by blast
  from inv1 ne lk out same show ?thesis
    by (intro conjI)
qed

subsection \<open>Errors of the GUI\<close>

text \<open>
  Claim C8, as amended. No GUI-level error is fatal except an unhandled startup
  exception. A camera that does not open, or an exception while the camera is set up,
  is shown in a critical dialog and \<open>start_camera\<close> returns; an exception raised while
  an image is loaded is shown in a warning dialog and the loop goes on with the next
  file; a file that \<open>cv2.imread\<close> cannot decode (\<open>None\<close>) is passed over without any
  message. An exception escaping the construction of the window is shown in a critical
  dialog and ends the process with exit code 1.
\<close>

theorem gui_errors_shown_not_fatal:
  "(\<not> opened c \<longrightarrow>
      start_camera (Inr c) self
        = message_box Critical txt_error txt_cannot_open_camera (self\<lparr>cap := Some c\<rparr>)) \<and>
   start_camera (Inl e) self
     = message_box Critical txt_error (txt_camera_init_failed @ str_exc e) self \<and>
   (imread file = Inl e \<longrightarrow>
      add_source_file imread self file
        = message_box Warning txt_warning (txt_image_load_failed @ str_exc e) self) \<and>
   (imread file = Inr None \<longrightarrow> add_source_file imread self file = self) \<and>
   add_source_image True (file # files) imread self
     = add_source_image True files imread (add_source_file imread self file) \<and>
   main (Inl e) = ([(Critical, txt_error, txt_startup_failed @ str_exc e)], 1) \<and>
   snd (main (Inl e)) \<noteq> 0"
  by (simp add: start_camera_def camera_init_failed_def add_source_file_def
        add_source_image_def main_def)

theorem gui_errors_shown_not_fatal_witness:
  "\<not> opened \<lparr>opened = False, frame_width = 0, frame_height = 0\<rparr> \<and>
   dialogs (start_camera (Inr \<lparr>opened = False, frame_width = 0, frame_height = 0\<rparr>)
              (FaceSwapUI_init 0 :: unit FaceSwapUI))
     = [(Critical, txt_error, txt_cannot_open_camera)] \<and>
   (\<lambda>f::string. Inl (Exception ''unreadable'') :: py_exception + image option) ''a.png''
     = Inl (Exception ''unreadable'') \<and>
   dialogs (add_source_file (\<lambda>f. Inl (Exception ''unreadable''))
              (FaceSwapUI_init 0 :: unit FaceSwapUI) ''a.png'')
     = [(Warning, txt_warning, txt_image_load_failed @ ''unreadable'')] \<and>
   main (Inl (Exception ''unreadable''))
     = ([(Critical, txt_error, txt_startup_failed @ ''unreadable'')], 1)"
  using gui_errors_shown_not_fatal
    [of "\<lparr>opened = False, frame_width = 0, frame_height = 0\<rparr>"
        "FaceSwapUI_init 0 :: unit FaceSwapUI" "Exception ''unreadable''"
        "\<lambda>f. Inl (Exception ''unreadable'')" "''a.png''" "[]"]
  by (simp add: message_box_def FaceSwapUI_init_def)

text \<open>
  The claim as first stated fails for a failure to load an image: a file that cannot
  be decoded leaves the window exactly as it was, with no dialog and the status bar
  still showing its initial text.
\<close>

theorem undecodable_image_is_skipped_silently_counterexample:
  "add_source_image True [''/home/u/broken.png''] (\<lambda>f. Inr None)
     (FaceSwapUI_init 0 :: unit FaceSwapUI)
   = FaceSwapUI_init 0 \<and>
   dialogs (add_source_image True [''/home/u/broken.png''] (\<lambda>f. Inr None)
     (FaceSwapUI_init 0 :: unit FaceSwapUI)) = [] \<and>
   status_bar (add_source_image True [''/home/u/broken.png''] (\<lambda>f. Inr None)
     (FaceSwapUI_init 0 :: unit FaceSwapUI)) = (txt_ready, None)"
  by (simp add: add_source_image_def add_source_file_def FaceSwapUI_init_def)

end
